theory Spec2Isabelle
  imports Complex_Main "HOL-Library.Sublist"
begin

section \<open>JavaScript string and array primitives\<close>

text \<open>
  A JavaScript string is modelled as a \<open>string\<close>: a list of 8-bit characters, standing for
  the code units U+0000 .. U+00FF. \<open>undefined\<close> is \<open>None\<close> of an option type.
  In this range the white space of \<open>\s\<close> and of \<open>String.prototype.trim\<close> is
  TAB, LF, VT, FF, CR, SPACE and NBSP.
\<close>

definition isWhiteSpace :: "char \<Rightarrow> bool" where
  "isWhiteSpace c \<longleftrightarrow>
     c \<in> set [CHR 0x09, CHR 0x0A, CHR 0x0B, CHR 0x0C, CHR 0x0D, CHR 0x20, CHR 0xA0]"

text \<open>The regular-expression classes \<open>\d\<close> and \<open>[A-Z]\<close>.\<close>

definition isDigit :: "char \<Rightarrow> bool" where
  "isDigit c \<longleftrightarrow> c \<in> set ''0123456789''"

definition isUpperAZ :: "char \<Rightarrow> bool" where
  "isUpperAZ c \<longleftrightarrow> c \<in> set ''ABCDEFGHIJKLMNOPQRSTUVWXYZ''"

text \<open>\<open>s.trim()\<close>\<close>

definition trim :: "string \<Rightarrow> string" where
  "trim s = rev (dropWhile isWhiteSpace (rev (dropWhile isWhiteSpace s)))"

text \<open>\<open>s.split(d)\<close> for a one-character separator \<open>d\<close>; the result is never empty.\<close>

fun split :: "char \<Rightarrow> string \<Rightarrow> string list" where
  "split d [] = [[]]"
| "split d (c # cs) =
     (if c = d then [] # split d cs
      else (case split d cs of [] \<Rightarrow> [[c]] | t # ts \<Rightarrow> (c # t) # ts))"

text \<open>\<open>xs.join(sep)\<close> on an array of strings.\<close>

fun join :: "string \<Rightarrow> string list \<Rightarrow> string" where
  "join sep [] = []"
| "join sep [x] = x"
| "join sep (x # y # ys) = x @ sep @ join sep (y # ys)"

text \<open>\<open>xs.indexOf(x)\<close> on an array: the first index holding \<open>x\<close>, or \<open>-1\<close>.\<close>

definition array_indexOf :: "'a list \<Rightarrow> 'a \<Rightarrow> int" where
  "array_indexOf xs x =
     (if x \<in> set xs then int (length (takeWhile (\<lambda>y. y \<noteq> x) xs)) else - 1)"

text \<open>\<open>xs.slice(k)\<close>: a negative \<open>k\<close> counts from the end.\<close>

definition slice :: "'a list \<Rightarrow> int \<Rightarrow> 'a list" where
  "slice xs k =
     (if k < 0 then drop (nat (max 0 (int (length xs) + k))) xs else drop (nat k) xs)"

text \<open>\<open>xs[i]\<close>: \<open>undefined\<close> out of range.\<close>

definition elemAt :: "'a list \<Rightarrow> nat \<Rightarrow> 'a option" where
  "elemAt xs i = (if i < length xs then Some (xs ! i) else None)"

text \<open>\<open>v || ""\<close> for \<open>v\<close> a string or \<open>undefined\<close>: both \<open>undefined\<close> and \<open>""\<close> are falsy.\<close>

fun orEmpty :: "string option \<Rightarrow> string" where
  "orEmpty None = []"
| "orEmpty (Some s) = (if s = [] then [] else s)"

section \<open>AddressParser\<close>

text \<open>
  The test \<open>/^[A-Z]\d[A-Z]\s?\d[A-Z]\d$/.test(part)\<close>: the whole of \<open>part\<close> is six
  characters of the classes letter, digit, letter, digit, letter, digit, with at most
  one white-space character between the third and the fourth.
\<close>

definition isPostalCode :: "string \<Rightarrow> bool" where
  "isPostalCode part \<longleftrightarrow>
     list_all2 (\<lambda>cls c. cls c)
       [isUpperAZ, isDigit, isUpperAZ, isDigit, isUpperAZ, isDigit] part \<or>
     list_all2 (\<lambda>cls c. cls c)
       [isUpperAZ, isDigit, isUpperAZ, isWhiteSpace, isDigit, isUpperAZ, isDigit] part"

definition isServedCity :: "string \<Rightarrow> bool" where
  "isServedCity part \<longleftrightarrow> part = ''Burnaby'' \<or> part = ''Vancouver'' \<or> part = ''Richmond''"

record address =
  streetNumber :: "string option"
  streetName :: "string option"
  streetType :: "string option"
  city :: string
  postalCode :: string
  neighborhood :: string

text \<open>
  \<open>parseAddress\<close> of \<open>bot.js\<close>; the one of the parsers module differs only in writing the
  city test as \<open>['Burnaby', 'Vancouver', 'Richmond'].includes(part)\<close>.
\<close>

definition parseAddress :: "string \<Rightarrow> address" where
  "parseAddress addressString =
     (let parts = split CHR '' '' addressString;
          postal = orEmpty (find isPostalCode parts)
      in \<lparr> streetNumber = elemAt parts 0,
           streetName = elemAt parts 1,
           streetType = elemAt parts 2,
           city = orEmpty (find isServedCity parts),
           postalCode = postal,
           neighborhood =
             orEmpty (Some (join '' '' (slice parts (array_indexOf parts postal + 1)))) \<rparr>)"

section \<open>More string primitives\<close>

text \<open>\<open>text.replace(/\s+/g, " ")\<close>: every maximal run of white space becomes one space.\<close>

function collapseWhiteSpace :: "string \<Rightarrow> string" where
  "collapseWhiteSpace [] = []"
| "collapseWhiteSpace (c # cs) =
     (if isWhiteSpace c then CHR '' '' # collapseWhiteSpace (dropWhile isWhiteSpace cs)
      else c # collapseWhiteSpace cs)"
  by pat_completeness auto
termination
  by (relation "measure length") (auto simp: length_dropWhile_le less_Suc_eq_le)

definition cleanText :: "string \<Rightarrow> string" where
  "cleanText text = trim (collapseWhiteSpace text)"

text \<open>\<open>s.replace(/[$,]/g, "")\<close>\<close>

definition stripDollarComma :: "string \<Rightarrow> string" where
  "stripDollarComma s = filter (\<lambda>c. c \<noteq> CHR ''$'' \<and> c \<noteq> CHR '','') s"

text \<open>
  \<open>s.toLowerCase()\<close> on the code units U+0000 .. U+00FF: the letters A-Z, and the
  upper-case letters of Latin-1 (U+00C0 .. U+00DE without the multiplication sign U+00D7).
\<close>

definition upperCaseLetters :: string where
  "upperCaseLetters = ''ABCDEFGHIJKLMNOPQRSTUVWXYZ'' @
     [CHR 0xC0, CHR 0xC1, CHR 0xC2, CHR 0xC3, CHR 0xC4, CHR 0xC5, CHR 0xC6, CHR 0xC7,
      CHR 0xC8, CHR 0xC9, CHR 0xCA, CHR 0xCB, CHR 0xCC, CHR 0xCD, CHR 0xCE, CHR 0xCF,
      CHR 0xD0, CHR 0xD1, CHR 0xD2, CHR 0xD3, CHR 0xD4, CHR 0xD5, CHR 0xD6,
      CHR 0xD8, CHR 0xD9, CHR 0xDA, CHR 0xDB, CHR 0xDC, CHR 0xDD, CHR 0xDE]"

definition lowerCaseLetters :: string where
  "lowerCaseLetters = ''abcdefghijklmnopqrstuvwxyz'' @
     [CHR 0xE0, CHR 0xE1, CHR 0xE2, CHR 0xE3, CHR 0xE4, CHR 0xE5, CHR 0xE6, CHR 0xE7,
      CHR 0xE8, CHR 0xE9, CHR 0xEA, CHR 0xEB, CHR 0xEC, CHR 0xED, CHR 0xEE, CHR 0xEF,
      CHR 0xF0, CHR 0xF1, CHR 0xF2, CHR 0xF3, CHR 0xF4, CHR 0xF5, CHR 0xF6,
      CHR 0xF8, CHR 0xF9, CHR 0xFA, CHR 0xFB, CHR 0xFC, CHR 0xFD, CHR 0xFE]"

definition lowerChar :: "char \<Rightarrow> char" where
  "lowerChar c =
     (case map_of (zip upperCaseLetters lowerCaseLetters) c of None \<Rightarrow> c | Some l \<Rightarrow> l)"

definition toLowerCase :: "string \<Rightarrow> string" where
  "toLowerCase s = map lowerChar s"

text \<open>\<open>s.includes(needle)\<close>\<close>

fun str_includes :: "string \<Rightarrow> string \<Rightarrow> bool" where
  "str_includes [] needle = (needle = [])"
| "str_includes (c # cs) needle = (prefix needle (c # cs) \<or> str_includes cs needle)"

text \<open>\<open>s.indexOf(needle)\<close> on a string: the first position of \<open>needle\<close>, or \<open>-1\<close>.\<close>

fun indexOf :: "string \<Rightarrow> string \<Rightarrow> int" where
  "indexOf [] needle = (if needle = [] then 0 else - 1)"
| "indexOf (c # cs) needle =
     (if prefix needle (c # cs) then 0
      else (let r = indexOf cs needle in if r < 0 then - 1 else r + 1))"

text \<open>
  \<open>s.substring(a, b)\<close>: both ends are clamped to \<open>0 .. s.length\<close> and swapped when
  \<open>a > b\<close>.
\<close>

definition substring :: "string \<Rightarrow> int \<Rightarrow> int \<Rightarrow> string" where
  "substring s a b =
     (let n = int (length s);
          a' = min (max 0 a) n;
          b' = min (max 0 b) n;
          lo = min a' b';
          hi = max a' b'
      in take (nat (hi - lo)) (drop (nat lo) s))"

text \<open>
  The decimal text of a page number or a delay in a template literal
  (numbers below \<open>10^21\<close>, which JavaScript prints without an exponent).
\<close>

definition digitChar :: "nat \<Rightarrow> char" where
  "digitChar d = ''0123456789'' ! (d mod 10)"

function string_of_nat :: "nat \<Rightarrow> string" where
  "string_of_nat n =
     (if n < 10 then [digitChar n] else string_of_nat (n div 10) @ [digitChar (n mod 10)])"
  by pat_completeness auto
termination
  by (relation "measure id") auto

declare string_of_nat.simps [simp del]

section \<open>Numbers and \<open>parseFloat\<close>\<close>

text \<open>
  A JavaScript number is \<open>NaN\<close>, an infinity (\<open>Infinity True\<close> is the negative one) or
  finite. \<open>Finite x\<close> stands for the double nearest to the real \<open>x\<close>; the rounding and
  the sign of zero are not modelled.
\<close>

datatype number = NaN | Infinity bool | Finite real

definition digitsValue :: "string \<Rightarrow> nat" where
  "digitsValue ds = foldl (\<lambda>a c. 10 * a + (of_char c - 48)) 0 ds"

text \<open>A leading sign: whether it is \<open>-\<close>, and the text after it.\<close>

fun signOf :: "string \<Rightarrow> bool \<times> string" where
  "signOf [] = (False, [])"
| "signOf (c # cs) =
     (if c = CHR ''-'' then (True, cs)
      else if c = CHR ''+'' then (False, cs)
      else (False, c # cs))"

text \<open>The value of an \<open>ExponentPart\<close> at the start of the text, \<open>0\<close> when there is none.\<close>

fun exponentPart :: "string \<Rightarrow> int" where
  "exponentPart [] = 0"
| "exponentPart (c # cs) =
     (if c = CHR ''e'' \<or> c = CHR ''E'' then
        (let (neg, r) = signOf cs;
             ds = takeWhile isDigit r
         in if ds = [] then 0
            else if neg then - int (digitsValue ds) else int (digitsValue ds))
      else 0)"

text \<open>The digits after a decimal point at the start of the text, and the text after them.\<close>

fun fractionPart :: "string \<Rightarrow> string \<times> string" where
  "fractionPart [] = ([], [])"
| "fractionPart (c # cs) =
     (if c = CHR ''.'' then (takeWhile isDigit cs, dropWhile isDigit cs) else ([], c # cs))"

definition scale10 :: "real \<Rightarrow> int \<Rightarrow> real" where
  "scale10 m e = (if 0 \<le> e then m * 10 ^ nat e else m / 10 ^ nat (- e))"

text \<open>
  \<open>parseFloat(s)\<close>: leading white space is skipped and the longest prefix that is a
  \<open>StrDecimalLiteral\<close> is converted; \<open>NaN\<close> when no prefix is one.
\<close>

definition parseFloat :: "string \<Rightarrow> number" where
  "parseFloat s =
     (let (neg, u) = signOf (dropWhile isWhiteSpace s)
      in if prefix ''Infinity'' u then Infinity neg
         else
           (let ip = takeWhile isDigit u;
                (fp, r) = fractionPart (dropWhile isDigit u)
            in if ip = [] \<and> fp = [] then NaN
               else
                 (let m = real (digitsValue (ip @ fp));
                      v = scale10 m (exponentPart r - int (length fp))
                  in Finite (if neg then - v else v))))"

text \<open>\<open>v || 0\<close> for a number \<open>v\<close>: \<open>NaN\<close> and zero are falsy.\<close>

fun orZero :: "number \<Rightarrow> number" where
  "orZero NaN = Finite 0"
| "orZero (Infinity b) = Infinity b"
| "orZero (Finite x) = (if x = 0 then Finite 0 else Finite x)"

text \<open>\<open>parsePrice\<close> of \<open>utils.js\<close>\<close>

definition parsePrice :: "string \<Rightarrow> number" where
  "parsePrice priceStr = orZero (parseFloat (stripDollarComma priceStr))"

section \<open>DetailTextParser: the description\<close>

definition extractDescription :: "string \<Rightarrow> string" where
  "extractDescription text =
     (let descEnd = indexOf text ''Documents & Links:''
      in trim (substring text 0
                 (if descEnd > 0 then descEnd else indexOf text ''General Info:'')))"

text \<open>
  The object built by \<open>parseDetailedInfo\<close>. Its fields \<open>features\<close>, \<open>rooms\<close>, \<open>taxes\<close>
  and \<open>lotInfo\<close> come from regular-expression searches over the same text; they are kept
  together in \<open>sections\<close>, computed by a function that is a parameter of the model.
\<close>

record 's detailed_info =
  description :: string
  sections :: 's

datatype error =
    AxiosError string
  | CheerioError
  | TypeError
  | ReferenceError string

text \<open>
  \<open>parseDetailedInfo\<close> of the parsers module (and of \<open>ogbot.js\<close>). \<open>None\<close> is \<open>null\<close>;
  the result is \<open>Inr\<close> because the function returns normally.
\<close>

definition parseDetailedInfo_parsers ::
  "(string \<Rightarrow> 's) \<Rightarrow> string \<Rightarrow> error + 's detailed_info option" where
  "parseDetailedInfo_parsers extractSections detailedInfo =
     (if detailedInfo = [] then Inr None
      else Inr (Some \<lparr> description = extractDescription detailedInfo,
                       sections = extractSections detailedInfo \<rparr>))"

text \<open>
  \<open>parseDetailedInfo\<close> of \<open>bot.js\<close>. The object literal calls \<open>extractAmenities\<close>, which
  \<open>bot.js\<close> neither defines nor imports: evaluating the literal raises a
  \<open>ReferenceError\<close> after the description, the year, the parking and the heating have
  been computed.
\<close>

definition parseDetailedInfo_bot ::
  "(string \<Rightarrow> 's) \<Rightarrow> string \<Rightarrow> error + 's detailed_info option" where
  "parseDetailedInfo_bot extractSections detailedInfo =
     (if detailedInfo = [] then Inr None
      else Inl (ReferenceError ''extractAmenities''))"

section \<open>SummaryExtractor\<close>

text \<open>
  What the cheerio queries of \<open>extractListingInfo\<close> return on one
  \<open>li.mrp-listing-result\<close> element: two attributes of the element, two attributes of its
  image, and the text of four descendants (\<open>text()\<close> is \<open>""\<close> when there is none).
\<close>

record element =
  attr_listing_id :: "string option"
  attr_share_url :: "string option"
  img_data_src :: "string option"
  img_src :: "string option"
  summary_text :: string
  price_text :: string
  status_text :: string
  address_text :: string

record price_info =
  amount :: number
  formatted :: string

record 'dt listing =
  listingId :: "string option"
  shareUrl :: "string option"
  price :: price_info
  status :: string
  location :: address
  imageUrl :: "string option"
  details :: 'dt

text \<open>\<open>a || b\<close> on attribute values.\<close>

fun orElse :: "string option \<Rightarrow> string option \<Rightarrow> string option" where
  "orElse None b = b"
| "orElse (Some s) b = (if s = [] then b else Some s)"

text \<open>\<open>imageUrl ? imageUrl.trim() : null\<close>\<close>

fun trimOrNull :: "string option \<Rightarrow> string option" where
  "trimOrNull None = None"
| "trimOrNull (Some s) = (if s = [] then None else Some (trim s))"

text \<open>
  \<open>extractListingInfo\<close> of \<open>bot.js\<close> (and \<open>ogbot.js\<close>); \<open>extractDetailsFromSummary\<close>, a
  series of regular-expression searches, is a parameter.
\<close>

definition extractListingInfo_bot :: "(string \<Rightarrow> 'dt) \<Rightarrow> element \<Rightarrow> 'dt listing" where
  "extractListingInfo_bot extractDetailsFromSummary element =
     (let image = orElse (img_data_src element) (img_src element);
          listingDetailsText = cleanText (summary_text element);
          summaryDetails = extractDetailsFromSummary listingDetailsText
      in \<lparr> listingId = attr_listing_id element,
           shareUrl = attr_share_url element,
           price = \<lparr> amount = parseFloat (stripDollarComma (trim (price_text element))),
                     formatted = trim (price_text element) \<rparr>,
           status = trim (status_text element),
           location = parseAddress (cleanText (address_text element)),
           imageUrl = trimOrNull image,
           details = summaryDetails \<rparr>)"

text \<open>\<open>extractListingInfo\<close> of the parsers module: the amount goes through \<open>parsePrice\<close>.\<close>

definition extractListingInfo_parsers :: "(string \<Rightarrow> 'dt) \<Rightarrow> element \<Rightarrow> 'dt listing" where
  "extractListingInfo_parsers extractDetailsFromSummary element =
     (let image = orElse (img_data_src element) (img_src element);
          listingDetailsText = cleanText (summary_text element);
          summaryDetails = extractDetailsFromSummary listingDetailsText
      in \<lparr> listingId = attr_listing_id element,
           shareUrl = attr_share_url element,
           price = \<lparr> amount = parsePrice (trim (price_text element)),
                     formatted = trim (price_text element) \<rparr>,
           status = trim (status_text element),
           location = parseAddress (cleanText (address_text element)),
           imageUrl = trimOrNull image,
           details = summaryDetails \<rparr>)"

section \<open>The network and the trace of effects\<close>

text \<open>
  Effects are recorded in a trace, oldest first: every HTTP GET with its configuration
  (the time-out and the headers, none for a bare \<open>axios.get(url)\<close>), every wait, and every
  console line. A URL is a string or \<open>undefined\<close>.

  What cheerio makes of a response body is a \<open>document\<close>: the \<open>li.mrp-listing-result\<close>
  elements in document order and the text of \<open>.mrp-listing-info-container\<close>. \<open>Unloadable\<close>
  is a body on which \<open>cheerio.load\<close> throws.

  The origin is a function \<open>net\<close> of the history up to and including the request: it
  answers with an error or a response. Every sequence of origin responses is some \<open>net\<close>.
  Every request settles; an origin that never answers is not represented.
\<close>

datatype event =
    Get "string option" "nat option" "(string \<times> string) list"
  | Sleep nat
  | ConsoleLog string
  | ConsoleError string error

record document =
  results :: "element list"
  infoText :: string

datatype payload = Html document | Unloadable

record response =
  data :: payload

type_synonym net = "event list \<Rightarrow> error + response"

fun cheerio_load :: "payload \<Rightarrow> error + document" where
  "cheerio_load (Html d) = Inr d"
| "cheerio_load Unloadable = Inl CheerioError"

definition axios_get ::
  "net \<Rightarrow> string option \<Rightarrow> nat option \<Rightarrow> (string \<times> string) list \<Rightarrow> event list
     \<Rightarrow> (error + response) \<times> event list" where
  "axios_get net url tmo hdrs tr =
     (let tr' = tr @ [Get url tmo hdrs] in (net tr', tr'))"

text \<open>A URL inside a template literal.\<close>

fun urlText :: "string option \<Rightarrow> string" where
  "urlText None = ''undefined''"
| "urlText (Some u) = u"

section \<open>Fetcher\<close>

definition userAgent :: "(string \<times> string) list" where
  "userAgent = [(''User-Agent'',
     ''Mozilla/5.0 (Windows NT 10.0; Win64; x64) AppleWebKit/537.36 (KHTML, like Gecko) Chrome/91.0.4472.124 Safari/537.36'')]"

definition retryMessage :: "nat \<Rightarrow> nat \<Rightarrow> string" where
  "retryMessage i delay =
     ''Attempt '' @ string_of_nat (i + 1) @ '' failed. Retrying in '' @ string_of_nat delay @ ''ms...''"

text \<open>
  The \<open>for\<close> loop of \<open>axiosWithRetry\<close> from counter \<open>i\<close>. \<open>Inl\<close> is a \<open>throw\<close>;
  \<open>Inr None\<close> is falling off the loop, which returns \<open>undefined\<close>.
\<close>

function axiosWithRetry_loop ::
  "net \<Rightarrow> string option \<Rightarrow> nat \<Rightarrow> nat \<Rightarrow> nat \<Rightarrow> nat \<Rightarrow> event list
     \<Rightarrow> (error + response option) \<times> event list" where
  "axiosWithRetry_loop net url retries delay tmo i tr =
     (if i < retries then
        (case axios_get net url (Some tmo) userAgent tr of
           (Inr resp, tr1) \<Rightarrow> (Inr (Some resp), tr1)
         | (Inl err, tr1) \<Rightarrow>
             if i = retries - 1 then (Inl err, tr1)
             else axiosWithRetry_loop net url retries delay tmo (i + 1)
                    (tr1 @ [ConsoleLog (retryMessage i delay), Sleep delay]))
      else (Inr None, tr))"
  by pat_completeness auto
termination
  by (relation "measure (\<lambda>(net, url, retries, delay, tmo, i, tr). retries - i)") auto

declare axiosWithRetry_loop.simps [simp del]

definition axiosWithRetry ::
  "net \<Rightarrow> string option \<Rightarrow> nat \<Rightarrow> nat \<Rightarrow> nat \<Rightarrow> event list
     \<Rightarrow> (error + response option) \<times> event list" where
  "axiosWithRetry net url retries delay tmo tr = axiosWithRetry_loop net url retries delay tmo 0 tr"

section \<open>PaginationCrawler\<close>

record 'dt page_result =
  listings :: "'dt listing list"
  foundInactive :: bool

definition isInactiveStatus :: "string \<Rightarrow> bool" where
  "isInactiveStatus st \<longleftrightarrow>
     str_includes (toLowerCase st) ''not active'' \<or>
     str_includes (toLowerCase st) ''inactive'' \<or>
     str_includes (toLowerCase st) ''sold'' \<or>
     str_includes (toLowerCase st) ''pending''"

text \<open>
  The \<open>try\<close> block of \<open>getLinksFromPage\<close>: a bare \<open>axios.get(url)\<close>, then the extraction.
  \<open>extractListingInfo\<close> is the function the file defines or imports.
\<close>

definition getLinksFromPage_try ::
  "net \<Rightarrow> (element \<Rightarrow> 'dt listing) \<Rightarrow> string option \<Rightarrow> event list
     \<Rightarrow> (error + 'dt page_result) \<times> event list" where
  "getLinksFromPage_try net extractListingInfo url tr =
     (case axios_get net url None [] tr of
        (Inl err, tr1) \<Rightarrow> (Inl err, tr1)
      | (Inr resp, tr1) \<Rightarrow>
          (case cheerio_load (data resp) of
             Inl err \<Rightarrow> (Inl err, tr1)
           | Inr doc \<Rightarrow>
               (let found = map extractListingInfo (results doc)
                in if length found = 0
                   then (Inr \<lparr> listings = [], foundInactive = True \<rparr>, tr1)
                   else (Inr \<lparr> listings = found,
                               foundInactive =
                                 list_ex (\<lambda>listing. isInactiveStatus (status listing)) found \<rparr>,
                         tr1))))"

text \<open>\<open>getLinksFromPage\<close>: the \<open>try\<close> block with its \<open>catch\<close>.\<close>

definition getLinksFromPage ::
  "net \<Rightarrow> (element \<Rightarrow> 'dt listing) \<Rightarrow> string option \<Rightarrow> event list
     \<Rightarrow> (error + 'dt page_result) \<times> event list" where
  "getLinksFromPage net extractListingInfo url tr =
     (case getLinksFromPage_try net extractListingInfo url tr of
        (Inl err, tr1) \<Rightarrow>
          (Inr \<lparr> listings = [], foundInactive = False \<rparr>,
           tr1 @ [ConsoleError ''Error fetching the page:'' err])
      | (Inr res, tr1) \<Rightarrow> (Inr res, tr1))"

definition scrapingMessage :: "nat \<Rightarrow> string \<Rightarrow> string" where
  "scrapingMessage currentPage pageUrl =
     ''Scraping page '' @ string_of_nat currentPage @ '': '' @ pageUrl"

definition noListingsMessage :: "nat \<Rightarrow> string" where
  "noListingsMessage currentPage =
     ''No listings found on page '' @ string_of_nat currentPage @ ''. Stopping scrape.''"

definition pageDoneMessage :: "nat \<Rightarrow> bool \<Rightarrow> nat \<Rightarrow> string" where
  "pageDoneMessage currentPage inactive n =
     (if inactive
      then ''Found inactive listing(s) on page '' @ string_of_nat currentPage @ ''. Stopping scrape.''
      else ''Completed scraping page '' @ string_of_nat currentPage @ ''. Found ''
             @ string_of_nat n @ '' listings.'')"

definition pageErrorMessage :: "nat \<Rightarrow> string" where
  "pageErrorMessage currentPage = ''Error scraping page '' @ string_of_nat currentPage @ '':''"

text \<open>
  The \<open>while\<close> loop of \<open>scrapeAllListingsWithDetails\<close>, from the state
  \<open>(allListings, currentPage, inactive)\<close>; \<open>inactive\<close> is the variable \<open>foundInactive\<close>.
  The result is \<open>allListings\<close> after the loop, with the trace.
\<close>

function crawl_loop ::
  "net \<Rightarrow> (element \<Rightarrow> 'dt listing) \<Rightarrow> string \<Rightarrow> nat \<Rightarrow> 'dt listing list \<Rightarrow> nat \<Rightarrow> bool
     \<Rightarrow> event list \<Rightarrow> 'dt listing list \<times> event list" where
  "crawl_loop net extractListingInfo baseUrl maxPages allListings currentPage inactive tr =
     (if \<not> inactive \<and> currentPage \<le> maxPages then
        (let pageUrl = baseUrl @ ''?_pg='' @ string_of_nat currentPage;
             tr0 = tr @ [ConsoleLog (scrapingMessage currentPage pageUrl)]
         in case getLinksFromPage net extractListingInfo (Some pageUrl) tr0 of
              (Inl err, tr1) \<Rightarrow>
                (allListings, tr1 @ [ConsoleError (pageErrorMessage currentPage) err])
            | (Inr res, tr1) \<Rightarrow>
                if length (listings res) = 0
                then (allListings, tr1 @ [ConsoleLog (noListingsMessage currentPage)])
                else crawl_loop net extractListingInfo baseUrl maxPages
                       (allListings @ listings res) (currentPage + 1) (foundInactive res)
                       (tr1 @ [ConsoleLog (pageDoneMessage currentPage (foundInactive res)
                                              (length (listings res))),
                               Sleep 1500]))
      else (allListings, tr))"
  by pat_completeness auto
termination
  by (relation "measure (\<lambda>(net, info, baseUrl, maxPages, allListings, currentPage, inactive, tr).
                   Suc maxPages - currentPage)") auto

declare crawl_loop.simps [simp del]

text \<open>The crawl phase: the loop from \<open>allListings = []\<close>, \<open>currentPage = 1\<close>, \<open>foundInactive = false\<close>.\<close>

definition crawl ::
  "net \<Rightarrow> (element \<Rightarrow> 'dt listing) \<Rightarrow> string \<Rightarrow> nat \<Rightarrow> 'dt listing list \<times> event list" where
  "crawl net extractListingInfo baseUrl maxPages =
     crawl_loop net extractListingInfo baseUrl maxPages [] 1 False []"

section \<open>DetailEnricher\<close>

definition detailErrorMessage :: "string option \<Rightarrow> string" where
  "detailErrorMessage url =
     ''Error fetching the listing details from '' @ urlText url @ '':''"

text \<open>
  The \<open>try\<close> block of \<open>scrapeListingDetails\<close>; \<open>url\<close> is its parameter \<open>shareUrl\<close>. Destructuring \<open>undefined\<close>, which
  \<open>axiosWithRetry\<close> returns when it makes no attempt, is a \<open>TypeError\<close>.
  \<open>parseDetailedInfo\<close> is the function the file defines or imports.
\<close>

definition scrapeListingDetails_try ::
  "net \<Rightarrow> (string \<Rightarrow> error + 's detailed_info option) \<Rightarrow> string option \<Rightarrow> event list
     \<Rightarrow> (error + 's detailed_info option) \<times> event list" where
  "scrapeListingDetails_try net parseDetailedInfo url tr =
     (case axiosWithRetry net url 3 1000 10000 tr of
        (Inl err, tr1) \<Rightarrow> (Inl err, tr1)
      | (Inr None, tr1) \<Rightarrow> (Inl TypeError, tr1)
      | (Inr (Some resp), tr1) \<Rightarrow>
          (case cheerio_load (data resp) of
             Inl err \<Rightarrow> (Inl err, tr1)
           | Inr doc \<Rightarrow> (parseDetailedInfo (cleanText (infoText doc)), tr1)))"

text \<open>\<open>scrapeListingDetails\<close>: the \<open>catch\<close> turns every exception into \<open>null\<close>.\<close>

definition scrapeListingDetails ::
  "net \<Rightarrow> (string \<Rightarrow> error + 's detailed_info option) \<Rightarrow> string option \<Rightarrow> event list
     \<Rightarrow> 's detailed_info option \<times> event list" where
  "scrapeListingDetails net parseDetailedInfo url tr =
     (case scrapeListingDetails_try net parseDetailedInfo url tr of
        (Inl err, tr1) \<Rightarrow> (None, tr1 @ [ConsoleError (detailErrorMessage url) err])
      | (Inr info, tr1) \<Rightarrow> (info, tr1))"

text \<open>\<open>{ ...listing, detailedInfo }\<close>\<close>

record ('dt, 's) enriched_listing = "'dt listing" +
  detailedInfo :: "'s detailed_info option"

definition withDetailedInfo ::
  "'dt listing \<Rightarrow> 's detailed_info option \<Rightarrow> ('dt, 's) enriched_listing" where
  "withDetailedInfo listing info =
     \<lparr> listingId = listingId listing, shareUrl = shareUrl listing, price = price listing,
       status = status listing, location = location listing, imageUrl = imageUrl listing,
       details = details listing, detailedInfo = info \<rparr>"

text \<open>
  One task of the fan-out. Each task continues the history of the crawl on its own: the
  origin's answer to a detail request depends on the crawl and on the earlier attempts of
  the same task, not on how the sibling tasks interleave. \<open>scrapeListingDetails\<close> never
  throws, so the \<open>catch\<close> of the task is not entered.
\<close>

definition enrichOne ::
  "net \<Rightarrow> (string \<Rightarrow> error + 's detailed_info option) \<Rightarrow> event list \<Rightarrow> 'dt listing
     \<Rightarrow> ('dt, 's) enriched_listing" where
  "enrichOne net parseDetailedInfo tr listing =
     withDetailedInfo listing
       (fst (scrapeListingDetails net parseDetailedInfo (shareUrl listing) tr))"

text \<open>\<open>Promise.all\<close> keeps the order of the tasks; then the \<open>filter\<close>.\<close>

definition enrich ::
  "net \<Rightarrow> (string \<Rightarrow> error + 's detailed_info option) \<Rightarrow> event list \<Rightarrow> 'dt listing list
     \<Rightarrow> ('dt, 's) enriched_listing list" where
  "enrich net parseDetailedInfo tr allListings =
     (let detailedListings = map (enrichOne net parseDetailedInfo tr) allListings
      in filter (\<lambda>listing. detailedInfo listing \<noteq> None) detailedListings)"

definition scrapeAllListingsWithDetails ::
  "net \<Rightarrow> (element \<Rightarrow> 'dt listing) \<Rightarrow> (string \<Rightarrow> error + 's detailed_info option)
     \<Rightarrow> string \<Rightarrow> nat \<Rightarrow> ('dt, 's) enriched_listing list" where
  "scrapeAllListingsWithDetails net extractListingInfo parseDetailedInfo baseUrl maxPages =
     (case crawl net extractListingInfo baseUrl maxPages of
        (allListings, tr) \<Rightarrow>
          enrich net parseDetailedInfo
            (tr @ [ConsoleLog (''Total listings found: '' @ string_of_nat (length allListings))])
            allListings)"

section \<open>Observations on traces\<close>

text \<open>The number of HTTP requests in a trace.\<close>

fun isGet :: "event \<Rightarrow> bool" where
  "isGet (Get u t h) = True"
| "isGet _ = False"

definition requestCount :: "event list \<Rightarrow> nat" where
  "requestCount tr = length (filter isGet tr)"

text \<open>
  What \<open>n\<close> failed attempts of \<open>axiosWithRetry\<close> that are not the last leave in the trace,
  the first of them being attempt \<open>i\<close>: the request, the console line, the wait.
\<close>

fun failedRounds :: "string option \<Rightarrow> nat \<Rightarrow> nat \<Rightarrow> nat \<Rightarrow> nat \<Rightarrow> event list" where
  "failedRounds url delay tmo i 0 = []"
| "failedRounds url delay tmo i (Suc n) =
     [Get url (Some tmo) userAgent, ConsoleLog (retryMessage i delay), Sleep delay]
       @ failedRounds url delay tmo (Suc i) n"

text \<open>What \<open>axiosWithRetry\<close> makes of the outcome of its last attempt.\<close>

fun attemptResult :: "error + response \<Rightarrow> error + response option" where
  "attemptResult (Inl err) = Inl err"
| "attemptResult (Inr resp) = Inr (Some resp)"

text \<open>The console line of the \<open>catch\<close> of the crawl loop.\<close>

fun isPageError :: "event \<Rightarrow> bool" where
  "isPageError (ConsoleError msg err) = prefix ''Error scraping page '' msg"
| "isPageError _ = False"

section \<open>Example inputs\<close>

text \<open>A listing element with the given identifier and status text.\<close>

definition exampleElement :: "string \<Rightarrow> string \<Rightarrow> element" where
  "exampleElement ident st =
     \<lparr> attr_listing_id = Some ident,
       attr_share_url = Some (''https://dorisgee.com/listing/'' @ ident),
       img_data_src = None,
       img_src = Some ''/photo.jpg'',
       summary_text = ''Bedrooms: 3 Bathrooms: 2'',
       price_text = ''$1,234,500'',
       status_text = st,
       address_text = ''123 Main St Burnaby V5H 1A1 Metrotown'' \<rparr>"

text \<open>An index page with the statuses Active, Sold, Active.\<close>

definition boundaryPage :: response where
  "boundaryPage =
     \<lparr> data = Html \<lparr> results = [exampleElement ''a'' ''Active'', exampleElement ''b'' ''Sold'',
                                 exampleElement ''c'' ''Active''],
                      infoText = '''' \<rparr> \<rparr>"

text \<open>Origins: one that always serves that page, one whose first answer is an error, one that is down.\<close>

definition boundaryNet :: net where
  "boundaryNet tr = Inr boundaryPage"

definition flakyNet :: net where
  "flakyNet tr = (if requestCount tr \<le> 1 then Inl (AxiosError ''ECONNRESET'') else Inr boundaryPage)"

definition downNet :: net where
  "downNet tr = Inl (AxiosError ''ECONNREFUSED'')"

text \<open>The URL of the latest event of a trace, when that event is a request.\<close>

fun requestUrl :: "event \<Rightarrow> string option" where
  "requestUrl (Get u t h) = u"
| "requestUrl _ = None"

definition lastUrl :: "event list \<Rightarrow> string option" where
  "lastUrl tr = (if tr = [] then None else requestUrl (last tr))"

text \<open>
  Ten summaries, and an origin that serves a detail page for each of them but the
  fourth, whose requests all time out.
\<close>

definition detailPage :: response where
  "detailPage =
     \<lparr> data = Html \<lparr> results = [],
                      infoText = ''Bright corner unit. Documents & Links: none General Info: Year built: 1990'' \<rparr> \<rparr>"

definition detailNet :: net where
  "detailNet tr =
     (if lastUrl tr = Some ''https://dorisgee.com/listing/L4''
      then Inl (AxiosError ''ETIMEDOUT'') else Inr detailPage)"

definition tenListings :: "unit listing list" where
  "tenListings =
     map (\<lambda>ident. extractListingInfo_bot (\<lambda>summary. ()) (exampleElement ident ''Active''))
       [''L1'', ''L2'', ''L3'', ''L4'', ''L5'', ''L6'', ''L7'', ''L8'', ''L9'', ''L10'']"

section \<open>Properties of the AddressParser\<close>

lemma split_not_Nil: "split d s \<noteq> []"
  by (induction s) (auto split: list.splits)

lemma join_split: "join [d] (split d s) = s"
proof (induction s)
  case Nil
  show ?case by simp
next
  case (Cons c cs)
  obtain t ts where ts: "split d cs = t # ts"
    using split_not_Nil [of d cs] by (cases "split d cs") auto
  with Cons show ?case
    by (cases ts) auto
qed

lemma no_separator_in_split: "t \<in> set (split d s) \<Longrightarrow> d \<notin> set t"
proof (induction s arbitrary: t)
  case Nil
  then show ?case by simp
next
  case (Cons c cs)
  then show ?case
    by (auto split: if_splits list.splits)
qed

lemma find_postal_None: "\<not> list_ex isPostalCode ps \<Longrightarrow> find isPostalCode ps = None"
  by (simp add: find_None_iff list_ex_iff)

lemma drop_after_first:
  "x \<in> set xs \<Longrightarrow>
     drop (Suc (length (takeWhile (\<lambda>y. y \<noteq> x) xs))) xs = tl (dropWhile (\<lambda>y. y \<noteq> x) xs)"
  by (induction xs) auto

text \<open>
  Claim C4, evaluated on the code. On \<open>"123 Main St Burnaby V5H 1A1 Metrotown"\<close> the split
  at spaces separates \<open>V5H\<close> from \<open>1A1\<close>, no token matches the postal-code pattern, and
  \<open>parseAddress\<close> returns an empty postal code and the whole input as the neighbourhood.
\<close>

theorem parseAddress_spec_example:
  "parseAddress ''123 Main St Burnaby V5H 1A1 Metrotown'' =
     \<lparr> streetNumber = Some ''123'', streetName = Some ''Main'', streetType = Some ''St'',
       city = ''Burnaby'', postalCode = '''',
       neighborhood = ''123 Main St Burnaby V5H 1A1 Metrotown'' \<rparr>"
  by (simp add: parseAddress_def isPostalCode_def isServedCity_def elemAt_def slice_def
      array_indexOf_def isUpperAZ_def isDigit_def isWhiteSpace_def)

text \<open>
  Claim C8 as stated fails: on \<open>"123 Main St"\<close> no token is a postal code, the
  neighbourhood is the whole input, and the tokens after the first are \<open>"Main St"\<close>.
\<close>

theorem parseAddress_neighborhood_not_from_index_1:
  "\<not> list_ex isPostalCode (split CHR '' '' ''123 Main St'') \<and>
   neighborhood (parseAddress ''123 Main St'') = ''123 Main St'' \<and>
   join '' '' (drop 1 (split CHR '' '' ''123 Main St'')) = ''Main St''"
  by (simp add: parseAddress_def isPostalCode_def isServedCity_def elemAt_def slice_def
      array_indexOf_def isUpperAZ_def isDigit_def isWhiteSpace_def)

text \<open>
  Claim C8, amended. For every address string none of whose tokens matches the
  postal-code pattern, \<open>postalCode\<close> is empty and \<open>neighborhood\<close> is the tokens after the
  first empty token joined by spaces; when no token is empty, \<open>indexOf\<close> is \<open>-1\<close>, the
  slice starts at index 0 and \<open>neighborhood\<close> is the whole address string.
\<close>

theorem parseAddress_no_postal_code:
  assumes "\<not> list_ex isPostalCode (split CHR '' '' s)"
  shows "postalCode (parseAddress s) = '''' \<and>
         neighborhood (parseAddress s) =
           (if '''' \<in> set (split CHR '' '' s)
            then join '' '' (tl (dropWhile (\<lambda>t. t \<noteq> '''') (split CHR '' '' s)))
            else s)"
  using assms join_split [of "CHR '' ''" s]
  by (auto simp add: parseAddress_def Let_def find_postal_None slice_def array_indexOf_def
      drop_after_first nat_add_distrib)

theorem parseAddress_no_postal_code_witness:
  "\<not> list_ex isPostalCode (split CHR '' '' ''4500 Kingsway Burnaby'') \<and>
   postalCode (parseAddress ''4500 Kingsway Burnaby'') = '''' \<and>
   neighborhood (parseAddress ''4500 Kingsway Burnaby'') = ''4500 Kingsway Burnaby''"
  using parseAddress_no_postal_code [of "''4500 Kingsway Burnaby''"]
  by (simp add: isPostalCode_def isUpperAZ_def isDigit_def isWhiteSpace_def)

section \<open>Properties of the Fetcher\<close>

lemma requestCount_Nil [simp]: "requestCount [] = 0"
  by (simp add: requestCount_def)

lemma requestCount_Cons [simp]:
  "requestCount (e # es) = (if isGet e then Suc (requestCount es) else requestCount es)"
  by (simp add: requestCount_def)

lemma requestCount_append [simp]: "requestCount (xs @ ys) = requestCount xs + requestCount ys"
  by (simp add: requestCount_def)

lemma requestCount_failedRounds [simp]: "requestCount (failedRounds url delay tmo i n) = n"
  by (induction n arbitrary: i) simp_all

lemma axiosWithRetry_loop_rounds:
  assumes "i < retries"
  shows "\<exists>n. i + n < retries \<and>
           snd (axiosWithRetry_loop net url retries delay tmo i tr) =
             tr @ failedRounds url delay tmo i n @ [Get url (Some tmo) userAgent] \<and>
           (\<forall>m<n. isl (net (tr @ failedRounds url delay tmo i m @ [Get url (Some tmo) userAgent]))) \<and>
           fst (axiosWithRetry_loop net url retries delay tmo i tr) =
             attemptResult (net (tr @ failedRounds url delay tmo i n @ [Get url (Some tmo) userAgent])) \<and>
           (isl (net (tr @ failedRounds url delay tmo i n @ [Get url (Some tmo) userAgent]))
              \<longrightarrow> i + n = retries - 1)"
  using assms
proof (induction net url retries delay tmo i tr rule: axiosWithRetry_loop.induct)
  case (1 net url retries delay tmo i tr)
  let ?g = "Get url (Some tmo) userAgent"
  show ?case
  proof (cases "net (tr @ [?g])")
    case (Inr resp)
    with "1.prems" have "axiosWithRetry_loop net url retries delay tmo i tr = (Inr (Some resp), tr @ [?g])"
      by (subst axiosWithRetry_loop.simps) (simp add: axios_get_def Let_def)
    with Inr "1.prems" show ?thesis
      by (intro exI [of _ 0]) simp
  next
    case (Inl err)
    show ?thesis
    proof (cases "i = retries - 1")
      case True
      with Inl "1.prems" have "axiosWithRetry_loop net url retries delay tmo i tr = (Inl err, tr @ [?g])"
        by (subst axiosWithRetry_loop.simps) (simp add: axios_get_def Let_def)
      with Inl True "1.prems" show ?thesis
        by (intro exI [of _ 0]) simp
    next
      case False
      let ?tr' = "tr @ [?g] @ [ConsoleLog (retryMessage i delay), Sleep delay]"
      from False "1.prems" have lt: "i + 1 < retries" by simp
      have step: "axiosWithRetry_loop net url retries delay tmo i tr =
                  axiosWithRetry_loop net url retries delay tmo (i + 1) ?tr'"
        using Inl False "1.prems"
        by (subst axiosWithRetry_loop.simps) (simp add: axios_get_def Let_def)
      have "\<exists>n. i + 1 + n < retries \<and>
           snd (axiosWithRetry_loop net url retries delay tmo (i + 1) ?tr') =
             ?tr' @ failedRounds url delay tmo (i + 1) n @ [?g] \<and>
           (\<forall>m<n. isl (net (?tr' @ failedRounds url delay tmo (i + 1) m @ [?g]))) \<and>
           fst (axiosWithRetry_loop net url retries delay tmo (i + 1) ?tr') =
             attemptResult (net (?tr' @ failedRounds url delay tmo (i + 1) n @ [?g])) \<and>
           (isl (net (?tr' @ failedRounds url delay tmo (i + 1) n @ [?g]))
              \<longrightarrow> i + 1 + n = retries - 1)"
        using "1.IH" [of "Inl err" "tr @ [?g]" err] Inl False lt "1.prems"
        by (simp add: axios_get_def Let_def)
      then obtain n where n: "i + 1 + n < retries"
        "snd (axiosWithRetry_loop net url retries delay tmo (i + 1) ?tr') =
             ?tr' @ failedRounds url delay tmo (i + 1) n @ [?g]"
        "\<forall>m<n. isl (net (?tr' @ failedRounds url delay tmo (i + 1) m @ [?g]))"
        "fst (axiosWithRetry_loop net url retries delay tmo (i + 1) ?tr') =
             attemptResult (net (?tr' @ failedRounds url delay tmo (i + 1) n @ [?g]))"
        "isl (net (?tr' @ failedRounds url delay tmo (i + 1) n @ [?g]))
              \<longrightarrow> i + 1 + n = retries - 1"
        by blast
      have all: "\<forall>m<Suc n. isl (net (tr @ failedRounds url delay tmo i m @ [?g]))"
      proof (intro allI impI)
        fix m assume "m < Suc n"
        show "isl (net (tr @ failedRounds url delay tmo i m @ [?g]))"
        proof (cases m)
          case 0
          with Inl show ?thesis by simp
        next
          case (Suc m')
          with \<open>m < Suc n\<close> n(3) show ?thesis by simp
        qed
      qed
      show ?thesis
        using n all unfolding step
        by (intro exI [of _ "Suc n"]) simp
    qed
  qed
qed


text \<open>
  Claim C5. For every URL and every \<open>retries \<ge> 1\<close>, \<open>axiosWithRetry\<close> makes \<open>k + 1\<close>
  requests for some \<open>k < retries\<close>, so at most \<open>retries\<close>. The first \<open>k\<close> attempts fail, and
  each of them is followed by the console line and by a wait of exactly \<open>delay\<close> before
  the next attempt. The result is the outcome of attempt \<open>k\<close>: its response, or its
  error unchanged; and an error is only returned by the last attempt, \<open>k = retries - 1\<close>.
\<close>

theorem axiosWithRetry_attempts:
  assumes "1 \<le> retries"
  shows "\<exists>k<retries.
           snd (axiosWithRetry net url retries delay tmo tr) =
             tr @ failedRounds url delay tmo 0 k @ [Get url (Some tmo) userAgent] \<and>
           requestCount (snd (axiosWithRetry net url retries delay tmo tr)) =
             requestCount tr + k + 1 \<and>
           (\<forall>j<k. isl (net (tr @ failedRounds url delay tmo 0 j @ [Get url (Some tmo) userAgent]))) \<and>
           fst (axiosWithRetry net url retries delay tmo tr) =
             attemptResult (net (tr @ failedRounds url delay tmo 0 k @ [Get url (Some tmo) userAgent])) \<and>
           (isl (net (tr @ failedRounds url delay tmo 0 k @ [Get url (Some tmo) userAgent]))
              \<longrightarrow> k = retries - 1)"
proof -
  from assms have "0 < retries" by simp
  from axiosWithRetry_loop_rounds [OF this, of net url delay tmo tr]
  obtain n where n: "n < retries"
    "snd (axiosWithRetry_loop net url retries delay tmo 0 tr) =
       tr @ failedRounds url delay tmo 0 n @ [Get url (Some tmo) userAgent]"
    "\<forall>m<n. isl (net (tr @ failedRounds url delay tmo 0 m @ [Get url (Some tmo) userAgent]))"
    "fst (axiosWithRetry_loop net url retries delay tmo 0 tr) =
       attemptResult (net (tr @ failedRounds url delay tmo 0 n @ [Get url (Some tmo) userAgent]))"
    "isl (net (tr @ failedRounds url delay tmo 0 n @ [Get url (Some tmo) userAgent]))
       \<longrightarrow> n = retries - 1"
    by auto
  have "requestCount (snd (axiosWithRetry_loop net url retries delay tmo 0 tr)) = requestCount tr + n + 1"
    unfolding n(2) by simp
  with n show ?thesis
    unfolding axiosWithRetry_def by (intro exI [of _ n]) simp
qed

theorem axiosWithRetry_attempts_witness:
  "(1::nat) \<le> 3 \<and>
   fst (axiosWithRetry (\<lambda>tr. Inl (AxiosError ''ETIMEDOUT'')) (Some ''https://dorisgee.com/x'')
          3 1000 10000 []) = Inl (AxiosError ''ETIMEDOUT'') \<and>
   requestCount (snd (axiosWithRetry (\<lambda>tr. Inl (AxiosError ''ETIMEDOUT''))
          (Some ''https://dorisgee.com/x'') 3 1000 10000 [])) = 3"
  using axiosWithRetry_attempts [of 3 "\<lambda>tr. Inl (AxiosError ''ETIMEDOUT'')"
      "Some ''https://dorisgee.com/x''" 1000 10000 "[]"]
  by auto

section \<open>Properties of the PaginationCrawler\<close>

lemma getLinksFromPage_fetch_error:
  assumes "net (tr @ [Get url None []]) = Inl err"
  shows "getLinksFromPage net info url tr =
           (Inr \<lparr> listings = [], foundInactive = False \<rparr>,
            tr @ [Get url None [], ConsoleError ''Error fetching the page:'' err])"
  using assms by (simp add: getLinksFromPage_def getLinksFromPage_try_def axios_get_def)

lemma getLinksFromPage_unloadable:
  assumes "net (tr @ [Get url None []]) = Inr resp" and "data resp = Unloadable"
  shows "getLinksFromPage net info url tr =
           (Inr \<lparr> listings = [], foundInactive = False \<rparr>,
            tr @ [Get url None [], ConsoleError ''Error fetching the page:'' CheerioError])"
  using assms by (simp add: getLinksFromPage_def getLinksFromPage_try_def axios_get_def)

lemma getLinksFromPage_empty:
  assumes "net (tr @ [Get url None []]) = Inr resp" and "data resp = Html doc"
    and "results doc = []"
  shows "getLinksFromPage net info url tr =
           (Inr \<lparr> listings = [], foundInactive = True \<rparr>, tr @ [Get url None []])"
  using assms by (simp add: getLinksFromPage_def getLinksFromPage_try_def axios_get_def)

lemma getLinksFromPage_listings:
  assumes "net (tr @ [Get url None []]) = Inr resp" and "data resp = Html doc"
    and "results doc \<noteq> []"
  shows "getLinksFromPage net info url tr =
           (Inr \<lparr> listings = map info (results doc),
                   foundInactive =
                     list_ex (\<lambda>listing. isInactiveStatus (status listing))
                       (map info (results doc)) \<rparr>,
            tr @ [Get url None []])"
  using assms by (simp add: getLinksFromPage_def getLinksFromPage_try_def axios_get_def Let_def)

lemma getLinksFromPage_shape:
  "\<exists>res evs. getLinksFromPage net info url tr = (Inr res, tr @ Get url None [] # evs) \<and>
     requestCount evs = 0 \<and> filter isPageError evs = []"
proof (cases "net (tr @ [Get url None []])")
  case (Inl err)
  with getLinksFromPage_fetch_error [of net tr url err info] show ?thesis by simp
next
  case (Inr resp)
  show ?thesis
  proof (cases "data resp")
    case Unloadable
    with Inr getLinksFromPage_unloadable [of net tr url resp info] show ?thesis by simp
  next
    case (Html doc)
    show ?thesis
    proof (cases "results doc = []")
      case True
      with Inr Html getLinksFromPage_empty [of net tr url resp doc info] show ?thesis by simp
    next
      case False
      with Inr Html getLinksFromPage_listings [of net tr url resp doc info] show ?thesis by simp
    qed
  qed
qed

lemma crawl_loop_requests:
  "requestCount (snd (crawl_loop net info baseUrl maxPages allListings currentPage inactive tr))
     \<le> requestCount tr + (Suc maxPages - currentPage) \<and>
   filter isPageError (snd (crawl_loop net info baseUrl maxPages allListings currentPage inactive tr))
     = filter isPageError tr"
proof (induction net info baseUrl maxPages allListings currentPage inactive tr
    rule: crawl_loop.induct)
  case (1 net info baseUrl maxPages allListings currentPage inactive tr)
  show ?case
  proof (cases "\<not> inactive \<and> currentPage \<le> maxPages")
    case False
    then have "crawl_loop net info baseUrl maxPages allListings currentPage inactive tr =
                 (allListings, tr)"
      by (subst crawl_loop.simps) auto
    then show ?thesis
      by simp
  next
    case True
    define pageUrl where "pageUrl = baseUrl @ ''?_pg='' @ string_of_nat currentPage"
    define tr0 where "tr0 = tr @ [ConsoleLog (scrapingMessage currentPage pageUrl)]"
    obtain res evs where g: "getLinksFromPage net info (Some pageUrl) tr0 =
        (Inr res, tr0 @ Get (Some pageUrl) None [] # evs)"
      and evs: "requestCount evs = 0" "filter isPageError evs = []"
      using getLinksFromPage_shape [of net info "Some pageUrl" tr0] by blast
    show ?thesis
    proof (cases "length (listings res) = 0")
      case empty: True
      have "crawl_loop net info baseUrl maxPages allListings currentPage inactive tr =
              (allListings, (tr0 @ Get (Some pageUrl) None [] # evs)
                              @ [ConsoleLog (noListingsMessage currentPage)])"
        using True empty g
        by (subst crawl_loop.simps) (simp add: Let_def pageUrl_def tr0_def)
      with True evs show ?thesis
        by (auto simp add: tr0_def)
    next
      case nonempty: False
      let ?tr' = "(tr0 @ Get (Some pageUrl) None [] # evs)
                    @ [ConsoleLog (pageDoneMessage currentPage (foundInactive res)
                                     (length (listings res))), Sleep 1500]"
      have step: "crawl_loop net info baseUrl maxPages allListings currentPage inactive tr =
              crawl_loop net info baseUrl maxPages (allListings @ listings res)
                (currentPage + 1) (foundInactive res) ?tr'"
        using True nonempty g
        by (subst crawl_loop.simps) (simp add: Let_def pageUrl_def tr0_def)
      have ih: "requestCount (snd (crawl_loop net info baseUrl maxPages (allListings @ listings res)
                (currentPage + 1) (foundInactive res) ?tr'))
                  \<le> requestCount ?tr' + (Suc maxPages - (currentPage + 1)) \<and>
            filter isPageError (snd (crawl_loop net info baseUrl maxPages (allListings @ listings res)
                (currentPage + 1) (foundInactive res) ?tr')) = filter isPageError ?tr'"
        using "1.IH" [OF True pageUrl_def tr0_def g [symmetric] refl nonempty] .
      from ih True evs show ?thesis
        unfolding step by (auto simp add: tr0_def)
    qed
  qed
qed

text \<open>
  Claim C2. For every base URL, every \<open>maxPages\<close> and every origin \<open>net\<close>, the crawl
  loop of \<open>scrapeAllListingsWithDetails\<close> issues at most \<open>maxPages\<close> page requests. The loop
  is the total function \<open>crawl_loop\<close>, whose termination is proved with the measure
  \<open>maxPages + 1 - currentPage\<close>: it returns for every origin whose requests settle.
\<close>

theorem crawl_fetches_at_most_maxPages: "requestCount (snd (crawl net info baseUrl maxPages)) \<le> maxPages"
  using crawl_loop_requests [of net info baseUrl maxPages "[]" 1 False "[]"]
  by (simp add: crawl_def)

text \<open>
  Claim C3. Whenever the crawl loop is about to fetch a page (\<open>foundInactive\<close> is false
  and \<open>currentPage \<le> maxPages\<close>) and the page fetched yields at least one listing whose
  status, in lower case, contains "not active", "inactive", "sold" or "pending", all
  listings of that page are appended to the accumulator, in page order, and the loop
  ends after the politeness wait: the page's request is the only one it makes.
\<close>

theorem inactive_page_is_kept_and_last:
  assumes "\<not> inactive" and "currentPage \<le> maxPages"
    and "pageUrl = baseUrl @ ''?_pg='' @ string_of_nat currentPage"
    and "tr0 = tr @ [ConsoleLog (scrapingMessage currentPage pageUrl), Get (Some pageUrl) None []]"
    and "net tr0 = Inr resp" and "data resp = Html doc"
    and "found = map info (results doc)"
    and "list_ex (\<lambda>listing. isInactiveStatus (status listing)) found"
  shows "crawl_loop net info baseUrl maxPages allListings currentPage inactive tr =
           (allListings @ found,
            tr0 @ [ConsoleLog (pageDoneMessage currentPage True (length found)), Sleep 1500]) \<and>
         requestCount (snd (crawl_loop net info baseUrl maxPages allListings currentPage inactive tr))
           = requestCount tr + 1"
proof -
  let ?trS = "tr @ [ConsoleLog (scrapingMessage currentPage pageUrl)]"
  from assms(7,8) have ne: "results doc \<noteq> []" by auto
  have net: "net (?trS @ [Get (Some pageUrl) None []]) = Inr resp"
    using assms(4,5) by simp
  have g: "getLinksFromPage net info (Some pageUrl) ?trS =
             (Inr \<lparr> listings = found, foundInactive = True \<rparr>, tr0)"
    using getLinksFromPage_listings [of net ?trS "Some pageUrl" resp doc info] net ne assms(4,6,7,8)
    by simp
  let ?tr' = "tr0 @ [ConsoleLog (pageDoneMessage currentPage True (length found)), Sleep 1500]"
  have stop: "crawl_loop net info baseUrl maxPages (allListings @ found) (currentPage + 1) True ?tr'
           = (allListings @ found, ?tr')"
    by (subst crawl_loop.simps) simp
  from ne assms(7) have "length found \<noteq> 0" by simp
  then have eq: "crawl_loop net info baseUrl maxPages allListings currentPage inactive tr =
           (allListings @ found, ?tr')"
    using assms(1,2) g stop
    by (subst crawl_loop.simps) (simp add: Let_def assms(3,4))
  show ?thesis
    unfolding eq by (simp add: assms(4))
qed

theorem inactive_page_is_kept_and_last_witness:
  "map status (fst (crawl boundaryNet (extractListingInfo_bot (\<lambda>summary. ()))
                      ''https://dorisgee.com/mylistings.html'' 20))
     = [''Active'', ''Sold'', ''Active''] \<and>
   requestCount (snd (crawl boundaryNet (extractListingInfo_bot (\<lambda>summary. ()))
                      ''https://dorisgee.com/mylistings.html'' 20)) = 1"
  using inactive_page_is_kept_and_last [of False 1 20
      "''https://dorisgee.com/mylistings.html'' @ ''?_pg='' @ string_of_nat 1"
      "''https://dorisgee.com/mylistings.html''"
      "[] @ [ConsoleLog (scrapingMessage 1 (''https://dorisgee.com/mylistings.html'' @ ''?_pg='' @ string_of_nat 1)),
             Get (Some (''https://dorisgee.com/mylistings.html'' @ ''?_pg='' @ string_of_nat 1)) None []]"
      "[]" boundaryNet boundaryPage
      "\<lparr> results = [exampleElement ''a'' ''Active'', exampleElement ''b'' ''Sold'',
                      exampleElement ''c'' ''Active''], infoText = '''' \<rparr>"
      "map (extractListingInfo_bot (\<lambda>summary. ())) [exampleElement ''a'' ''Active'', exampleElement ''b'' ''Sold'',
                      exampleElement ''c'' ''Active'']"
      "extractListingInfo_bot (\<lambda>summary. ())" "[]"]
  by (simp add: crawl_def boundaryNet_def boundaryPage_def exampleElement_def
      extractListingInfo_bot_def Let_def trim_def isWhiteSpace_def isInactiveStatus_def
      toLowerCase_def lowerChar_def upperCaseLetters_def lowerCaseLetters_def)

lemma getLinksFromPage_try_cases:
  "getLinksFromPage_try net info url tr = (Inl err, tr1) \<Longrightarrow>
     tr1 = tr @ [Get url None []] \<and>
     getLinksFromPage net info url tr =
       (Inr \<lparr> listings = [], foundInactive = False \<rparr>,
        tr1 @ [ConsoleError ''Error fetching the page:'' err])"
  by (auto simp add: getLinksFromPage_def getLinksFromPage_try_def axios_get_def Let_def
      split: sum.splits if_splits)

lemma getLinksFromPage_try_result:
  "getLinksFromPage_try net info url tr = (Inr res, tr1) \<Longrightarrow>
     tr1 = tr @ [Get url None []] \<and> getLinksFromPage net info url tr = (Inr res, tr1)"
  by (auto simp add: getLinksFromPage_def getLinksFromPage_try_def axios_get_def Let_def
      split: sum.splits if_splits)

lemma crawl_loop_no_listings:
  assumes "\<not> inactive" and "currentPage \<le> maxPages"
    and "getLinksFromPage net info (Some (baseUrl @ ''?_pg='' @ string_of_nat currentPage))
           (tr @ [ConsoleLog (scrapingMessage currentPage
                    (baseUrl @ ''?_pg='' @ string_of_nat currentPage))]) = (Inr res, tr1)"
    and "listings res = []"
  shows "crawl_loop net info baseUrl maxPages allListings currentPage inactive tr =
           (allListings, tr1 @ [ConsoleLog (noListingsMessage currentPage)])"
  using assms by (subst crawl_loop.simps) (simp add: Let_def)

text \<open>
  Claim C10. For every URL, \<open>getLinksFromPage\<close> returns normally (\<open>Inr\<close>); when its
  \<open>try\<close> block throws, on a failed request or on a body that cheerio cannot load, the
  \<open>catch\<close> returns \<open>{ listings: [], foundInactive: false }\<close>. In the crawl loop such a
  page ends the crawl in the empty-listings branch, the one a page without listings
  takes: the accumulator is returned as it was and the last console line is the
  "No listings found" one. The \<open>catch\<close> of the loop is never entered: the loop adds no
  "Error scraping page" line to the trace.
\<close>

theorem getLinksFromPage_never_throws:
  "(\<exists>res tr'. getLinksFromPage net info url tr = (Inr res, tr')) \<and>
   (\<forall>err tr1. getLinksFromPage_try net info url tr = (Inl err, tr1) \<longrightarrow>
      getLinksFromPage net info url tr =
        (Inr \<lparr> listings = [], foundInactive = False \<rparr>,
         tr1 @ [ConsoleError ''Error fetching the page:'' err])) \<and>
   (\<forall>err tr1. \<not> inactive \<and> currentPage \<le> maxPages \<and>
      getLinksFromPage_try net info (Some (baseUrl @ ''?_pg='' @ string_of_nat currentPage))
        (tr @ [ConsoleLog (scrapingMessage currentPage
                 (baseUrl @ ''?_pg='' @ string_of_nat currentPage))]) = (Inl err, tr1) \<longrightarrow>
      crawl_loop net info baseUrl maxPages allListings currentPage inactive tr =
        (allListings,
         tr1 @ [ConsoleError ''Error fetching the page:'' err,
                ConsoleLog (noListingsMessage currentPage)])) \<and>
   (\<forall>tr1. \<not> inactive \<and> currentPage \<le> maxPages \<and>
      getLinksFromPage_try net info (Some (baseUrl @ ''?_pg='' @ string_of_nat currentPage))
        (tr @ [ConsoleLog (scrapingMessage currentPage
                 (baseUrl @ ''?_pg='' @ string_of_nat currentPage))])
        = (Inr \<lparr> listings = [], foundInactive = True \<rparr>, tr1) \<longrightarrow>
      crawl_loop net info baseUrl maxPages allListings currentPage inactive tr =
        (allListings, tr1 @ [ConsoleLog (noListingsMessage currentPage)])) \<and>
   filter isPageError (snd (crawl_loop net info baseUrl maxPages allListings currentPage inactive tr))
     = filter isPageError tr"
proof (intro conjI allI impI)
  show "\<exists>res tr'. getLinksFromPage net info url tr = (Inr res, tr')"
    using getLinksFromPage_shape [of net info url tr] by blast
next
  fix err tr1
  assume "getLinksFromPage_try net info url tr = (Inl err, tr1)"
  then show "getLinksFromPage net info url tr =
        (Inr \<lparr> listings = [], foundInactive = False \<rparr>,
         tr1 @ [ConsoleError ''Error fetching the page:'' err])"
    by (simp add: getLinksFromPage_try_cases)
next
  fix err tr1
  let ?url = "Some (baseUrl @ ''?_pg='' @ string_of_nat currentPage)"
  let ?tr = "tr @ [ConsoleLog (scrapingMessage currentPage
                 (baseUrl @ ''?_pg='' @ string_of_nat currentPage))]"
  assume a: "\<not> inactive \<and> currentPage \<le> maxPages \<and>
      getLinksFromPage_try net info ?url ?tr = (Inl err, tr1)"
  then have g: "getLinksFromPage net info ?url ?tr =
      (Inr \<lparr> listings = [], foundInactive = False \<rparr>,
       tr1 @ [ConsoleError ''Error fetching the page:'' err])"
    using getLinksFromPage_try_cases [of net info ?url ?tr err tr1] by blast
  have "crawl_loop net info baseUrl maxPages allListings currentPage inactive tr =
        (allListings,
         (tr1 @ [ConsoleError ''Error fetching the page:'' err])
           @ [ConsoleLog (noListingsMessage currentPage)])"
    by (rule crawl_loop_no_listings [OF _ _ g]) (use a in simp_all)
  then show "crawl_loop net info baseUrl maxPages allListings currentPage inactive tr =
        (allListings,
         tr1 @ [ConsoleError ''Error fetching the page:'' err,
                ConsoleLog (noListingsMessage currentPage)])"
    by simp
next
  fix tr1
  let ?url = "Some (baseUrl @ ''?_pg='' @ string_of_nat currentPage)"
  let ?tr = "tr @ [ConsoleLog (scrapingMessage currentPage
                 (baseUrl @ ''?_pg='' @ string_of_nat currentPage))]"
  assume a: "\<not> inactive \<and> currentPage \<le> maxPages \<and>
      getLinksFromPage_try net info ?url ?tr
        = (Inr \<lparr> listings = [], foundInactive = True \<rparr>, tr1)"
  then have g: "getLinksFromPage net info ?url ?tr =
      (Inr \<lparr> listings = [], foundInactive = True \<rparr>, tr1)"
    using getLinksFromPage_try_result [of net info ?url ?tr _ tr1] by blast
  show "crawl_loop net info baseUrl maxPages allListings currentPage inactive tr =
        (allListings, tr1 @ [ConsoleLog (noListingsMessage currentPage)])"
    by (rule crawl_loop_no_listings [OF _ _ g]) (use a in simp_all)
next
  show "filter isPageError (snd (crawl_loop net info baseUrl maxPages allListings currentPage inactive tr))
     = filter isPageError tr"
    using crawl_loop_requests [of net info baseUrl maxPages allListings currentPage inactive tr]
    by blast
qed

theorem getLinksFromPage_never_throws_witness:
  "fst (getLinksFromPage downNet (extractListingInfo_bot (\<lambda>summary. ()))
          (Some ''https://dorisgee.com/mylistings.html?_pg=1'') [])
     = Inr \<lparr> listings = [], foundInactive = False \<rparr> \<and>
   crawl downNet (extractListingInfo_bot (\<lambda>summary. ())) ''https://dorisgee.com/mylistings.html'' 20
     = ([], [ConsoleLog ''Scraping page 1: https://dorisgee.com/mylistings.html?_pg=1'',
             Get (Some ''https://dorisgee.com/mylistings.html?_pg=1'') None [],
             ConsoleError ''Error fetching the page:'' (AxiosError ''ECONNREFUSED''),
             ConsoleLog ''No listings found on page 1. Stopping scrape.''])"
  using getLinksFromPage_never_throws [where net = downNet
      and info = "extractListingInfo_bot (\<lambda>summary. ())"
      and url = "Some ''https://dorisgee.com/mylistings.html?_pg=1''" and tr = "[]"
      and inactive = False and currentPage = 1 and maxPages = 20
      and baseUrl = "''https://dorisgee.com/mylistings.html''" and allListings = "[]"]
  by (simp add: crawl_def downNet_def getLinksFromPage_try_def axios_get_def
      string_of_nat.simps digitChar_def scrapingMessage_def noListingsMessage_def)

text \<open>
  Claim C6, evaluated on the code. \<open>getLinksFromPage\<close> fetches the index page with a
  bare \<open>axios.get(url)\<close>, not through \<open>axiosWithRetry\<close>. On an origin whose first answer
  is an error and whose later answers are the page, it makes one request without
  time-out or headers and reports a page without listings, and the crawl ends with
  nothing; \<open>axiosWithRetry\<close> on the same origin retries and obtains the page.
\<close>

theorem index_page_fetch_is_not_retried:
  "getLinksFromPage flakyNet info (Some ''https://dorisgee.com/mylistings.html?_pg=1'') [] =
     (Inr \<lparr> listings = [], foundInactive = False \<rparr>,
      [Get (Some ''https://dorisgee.com/mylistings.html?_pg=1'') None [],
       ConsoleError ''Error fetching the page:'' (AxiosError ''ECONNRESET'')]) \<and>
   axiosWithRetry flakyNet (Some ''https://dorisgee.com/mylistings.html?_pg=1'') 3 1000 10000 [] =
     (Inr (Some boundaryPage),
      [Get (Some ''https://dorisgee.com/mylistings.html?_pg=1'') (Some 10000) userAgent,
       ConsoleLog ''Attempt 1 failed. Retrying in 1000ms...'',
       Sleep 1000,
       Get (Some ''https://dorisgee.com/mylistings.html?_pg=1'') (Some 10000) userAgent]) \<and>
   crawl flakyNet info ''https://dorisgee.com/mylistings.html'' 20 =
     ([], [ConsoleLog ''Scraping page 1: https://dorisgee.com/mylistings.html?_pg=1'',
           Get (Some ''https://dorisgee.com/mylistings.html?_pg=1'') None [],
           ConsoleError ''Error fetching the page:'' (AxiosError ''ECONNRESET''),
           ConsoleLog ''No listings found on page 1. Stopping scrape.''])"
proof (intro conjI)
  show "getLinksFromPage flakyNet info (Some ''https://dorisgee.com/mylistings.html?_pg=1'') [] =
     (Inr \<lparr> listings = [], foundInactive = False \<rparr>,
      [Get (Some ''https://dorisgee.com/mylistings.html?_pg=1'') None [],
       ConsoleError ''Error fetching the page:'' (AxiosError ''ECONNRESET'')])"
    by (simp add: getLinksFromPage_def getLinksFromPage_try_def axios_get_def flakyNet_def)
  show "axiosWithRetry flakyNet (Some ''https://dorisgee.com/mylistings.html?_pg=1'') 3 1000 10000 [] =
     (Inr (Some boundaryPage),
      [Get (Some ''https://dorisgee.com/mylistings.html?_pg=1'') (Some 10000) userAgent,
       ConsoleLog ''Attempt 1 failed. Retrying in 1000ms...'',
       Sleep 1000,
       Get (Some ''https://dorisgee.com/mylistings.html?_pg=1'') (Some 10000) userAgent])"
    by (simp add: axiosWithRetry_def axiosWithRetry_loop.simps axios_get_def flakyNet_def
        retryMessage_def string_of_nat.simps digitChar_def)
  show "crawl flakyNet info ''https://dorisgee.com/mylistings.html'' 20 =
     ([], [ConsoleLog ''Scraping page 1: https://dorisgee.com/mylistings.html?_pg=1'',
           Get (Some ''https://dorisgee.com/mylistings.html?_pg=1'') None [],
           ConsoleError ''Error fetching the page:'' (AxiosError ''ECONNRESET''),
           ConsoleLog ''No listings found on page 1. Stopping scrape.''])"
    by (simp add: crawl_def crawl_loop.simps getLinksFromPage_def getLinksFromPage_try_def
        axios_get_def flakyNet_def scrapingMessage_def noListingsMessage_def
        string_of_nat.simps digitChar_def Let_def)
qed

section \<open>Properties of the DetailEnricher\<close>

lemma detailedInfo_withDetailedInfo [simp]: "detailedInfo (withDetailedInfo l d) = d"
  by (simp add: withDetailedInfo_def)

lemma detailedInfo_enrichOne:
  "detailedInfo (enrichOne net parse tr l) = fst (scrapeListingDetails net parse (shareUrl l) tr)"
  by (simp add: enrichOne_def)

lemma enrich_only_non_null:
  "e \<in> set (enrich net parse tr ls) \<longleftrightarrow>
     e \<in> set (map (enrichOne net parse tr) ls) \<and> detailedInfo e \<noteq> None"
  by (auto simp add: enrich_def Let_def)

lemma enrich_append:
  "enrich net parse tr (xs @ ys) = enrich net parse tr xs @ enrich net parse tr ys"
  by (simp add: enrich_def Let_def)

lemma enrich_isolation:
  assumes "fst (scrapeListingDetails net parse (shareUrl l) tr) = None"
  shows "enrich net parse tr (xs @ l # ys) = enrich net parse tr (xs @ ys)"
  using assms by (simp add: enrich_def Let_def detailedInfo_enrichOne)

lemma enrich_all_kept:
  assumes "\<forall>l \<in> set ls. fst (scrapeListingDetails net parse (shareUrl l) tr) \<noteq> None"
  shows "enrich net parse tr ls = map (enrichOne net parse tr) ls"
  using assms by (simp add: enrich_def Let_def detailedInfo_enrichOne)

lemma scrapeListingDetails_bot:
  "fst (scrapeListingDetails net (parseDetailedInfo_bot extractSections) url tr) = None"
  by (auto simp add: scrapeListingDetails_def scrapeListingDetails_try_def parseDetailedInfo_bot_def
      split: prod.splits sum.splits option.splits)

lemma enrich_bot: "enrich net (parseDetailedInfo_bot extractSections) tr ls = []"
  by (simp add: enrich_def Let_def detailedInfo_enrichOne scrapeListingDetails_bot)

lemma axiosWithRetry_first_success:
  assumes "net (tr @ [Get url (Some tmo) userAgent]) = Inr resp" and "0 < retries"
  shows "axiosWithRetry net url retries delay tmo tr = (Inr (Some resp), tr @ [Get url (Some tmo) userAgent])"
  using assms unfolding axiosWithRetry_def
  by (subst axiosWithRetry_loop.simps) (simp add: axios_get_def)

lemma axiosWithRetry_all_fail:
  assumes "\<forall>tr'. net (tr' @ [Get url (Some tmo) userAgent]) = Inl err" and "0 < retries"
  shows "fst (axiosWithRetry net url retries delay tmo tr) = Inl err"
proof -
  obtain n where n: "fst (axiosWithRetry_loop net url retries delay tmo 0 tr) =
       attemptResult (net (tr @ failedRounds url delay tmo 0 n @ [Get url (Some tmo) userAgent]))"
    using axiosWithRetry_loop_rounds [OF assms(2), of net url delay tmo tr] by blast
  have "net ((tr @ failedRounds url delay tmo 0 n) @ [Get url (Some tmo) userAgent]) = Inl err"
    using assms(1) by blast
  with n show ?thesis
    by (simp add: axiosWithRetry_def)
qed

lemma scrapeListingDetails_success_parsers:
  assumes "net (tr @ [Get url (Some 10000) userAgent]) = Inr resp" and "data resp = Html doc"
    and "cleanText (infoText doc) \<noteq> []"
  shows "fst (scrapeListingDetails net (parseDetailedInfo_parsers extractSections) url tr) =
           Some \<lparr> description = extractDescription (cleanText (infoText doc)),
                  sections = extractSections (cleanText (infoText doc)) \<rparr>"
  using assms axiosWithRetry_first_success [of net tr url 10000 resp 3 1000]
  by (simp add: scrapeListingDetails_def scrapeListingDetails_try_def parseDetailedInfo_parsers_def)

lemma scrapeListingDetails_permanent_failure:
  assumes "\<forall>tr'. net (tr' @ [Get url (Some 10000) userAgent]) = Inl err"
  shows "fst (scrapeListingDetails net parse url tr) = None"
proof -
  have "fst (axiosWithRetry net url 3 1000 10000 tr) = Inl err"
    using axiosWithRetry_all_fail [OF assms, of 3 1000 tr] by simp
  then show ?thesis
    by (cases "axiosWithRetry net url 3 1000 10000 tr")
      (simp add: scrapeListingDetails_def scrapeListingDetails_try_def)
qed

lemma scrapeAllListingsWithDetails_non_null:
  "e \<in> set (scrapeAllListingsWithDetails net info parse baseUrl maxPages) \<Longrightarrow>
     detailedInfo e \<noteq> None"
  by (auto simp add: scrapeAllListingsWithDetails_def enrich_only_non_null split: prod.splits)

lemma lastUrl_request [simp]: "lastUrl (tr @ [Get u t h]) = u"
  by (simp add: lastUrl_def)

lemma detailNet_served:
  assumes "u \<noteq> Some ''https://dorisgee.com/listing/L4''"
  shows "fst (scrapeListingDetails detailNet (parseDetailedInfo_parsers extractSections) u tr) =
           Some \<lparr> description = ''Bright corner unit.'',
                  sections = extractSections
                    ''Bright corner unit. Documents & Links: none General Info: Year built: 1990'' \<rparr>"
proof -
  have net: "detailNet (tr @ [Get u (Some 10000) userAgent]) = Inr detailPage"
    using assms by (simp add: detailNet_def)
  have cleaned: "cleanText ''Bright corner unit. Documents & Links: none General Info: Year built: 1990''
      = ''Bright corner unit. Documents & Links: none General Info: Year built: 1990''"
    by code_simp
  have desc: "extractDescription
      ''Bright corner unit. Documents & Links: none General Info: Year built: 1990''
      = ''Bright corner unit.''"
    by code_simp
  show ?thesis
    using net scrapeListingDetails_success_parsers [where net = detailNet and tr = tr and url = u
        and resp = detailPage and extractSections = extractSections
        and doc = "\<lparr> results = [], infoText = ''Bright corner unit. Documents & Links: none General Info: Year built: 1990'' \<rparr>"]
    by (simp add: detailPage_def cleaned desc)
qed

lemma detailNet_timed_out:
  "fst (scrapeListingDetails detailNet parse (Some ''https://dorisgee.com/listing/L4'') tr) = None"
  by (rule scrapeListingDetails_permanent_failure [where err = "AxiosError ''ETIMEDOUT''"])
    (simp add: detailNet_def)

lemma listingId_enrichOne [simp]: "listingId (enrichOne net parse tr l) = listingId l"
  by (simp add: enrichOne_def withDetailedInfo_def)

lemma listingId_enrich:
  "map listingId (enrich net parse tr ls) =
     map listingId (filter (\<lambda>l. fst (scrapeListingDetails net parse (shareUrl l) tr) \<noteq> None) ls)"
  by (induction ls) (simp_all add: enrich_def Let_def detailedInfo_enrichOne)

lemma extractListingInfo_bot_ids [simp]:
  "listingId (extractListingInfo_bot f e) = attr_listing_id e"
  "shareUrl (extractListingInfo_bot f e) = attr_share_url e"
  by (simp_all add: extractListingInfo_bot_def Let_def)

lemma exampleElement_ids [simp]:
  "attr_listing_id (exampleElement ident st) = Some ident"
  "attr_share_url (exampleElement ident st) = Some (''https://dorisgee.com/listing/'' @ ident)"
  by (simp_all add: exampleElement_def)

text \<open>
  Claim C1, evaluated on the code. Ten summaries are enriched against an origin that
  serves every detail page but the fourth, whose requests all time out. With
  \<open>parseDetailedInfo\<close> of \<open>bot.js\<close> every listing is dropped: the call of the undefined
  \<open>extractAmenities\<close> throws inside the \<open>try\<close> of \<open>scrapeListingDetails\<close>, which returns
  \<open>null\<close>. With \<open>parseDetailedInfo\<close> of the parsers module the nine other listings are
  returned, in order.
\<close>

theorem enrichment_of_ten_listings:
  "length tenListings = 10 \<and>
   enrich detailNet (parseDetailedInfo_bot extractSections) tr tenListings = [] \<and>
   map listingId (enrich detailNet (parseDetailedInfo_parsers extractSections) tr tenListings) =
     [Some ''L1'', Some ''L2'', Some ''L3'', Some ''L5'', Some ''L6'', Some ''L7'', Some ''L8'',
      Some ''L9'', Some ''L10'']"
proof (intro conjI)
  show "length tenListings = 10"
    by (simp add: tenListings_def)
  show "enrich detailNet (parseDetailedInfo_bot extractSections) tr tenListings = []"
    by (rule enrich_bot)
  show "map listingId (enrich detailNet (parseDetailedInfo_parsers extractSections) tr tenListings) =
     [Some ''L1'', Some ''L2'', Some ''L3'', Some ''L5'', Some ''L6'', Some ''L7'', Some ''L8'',
      Some ''L9'', Some ''L10'']"
    by (simp add: listingId_enrich tenListings_def detailNet_served detailNet_timed_out)
qed

section \<open>Properties of the description extractor\<close>

lemma indexOf_first:
  assumes "prefix needle rest"
    and "\<forall>i<length pre. \<not> prefix needle (drop i (pre @ rest))"
  shows "indexOf (pre @ rest) needle = int (length pre)"
  using assms
proof (induction pre)
  case Nil
  then show ?case by (cases rest) auto
next
  case (Cons a pre)
  from Cons.prems(2) have "\<not> prefix needle (drop 0 ((a # pre) @ rest))"
    by (metis length_greater_0_conv list.distinct(1))
  then have first: "\<not> prefix needle (a # pre @ rest)" by simp
  have "\<forall>i<length pre. \<not> prefix needle (drop i (pre @ rest))"
  proof (intro allI impI)
    fix i assume "i < length pre"
    then have "Suc i < length (a # pre)" by simp
    with Cons.prems(2) have "\<not> prefix needle (drop (Suc i) ((a # pre) @ rest))" by blast
    then show "\<not> prefix needle (drop i (pre @ rest))" by simp
  qed
  with Cons.IH Cons.prems(1) have "indexOf (pre @ rest) needle = int (length pre)" by blast
  with first show ?case by (simp add: Let_def)
qed

lemma indexOf_least:
  "indexOf s needle = int n \<Longrightarrow> i < n \<Longrightarrow> \<not> prefix needle (drop i s)"
proof (induction s arbitrary: n i)
  case Nil
  then show ?case by (simp split: if_splits)
next
  case (Cons c cs)
  show ?case
  proof (cases "prefix needle (c # cs)")
    case True
    with Cons.prems show ?thesis by simp
  next
    case False
    with Cons.prems(1) have r: "0 \<le> indexOf cs needle" "indexOf cs needle + 1 = int n"
      by (simp_all add: Let_def split: if_splits)
    then obtain m where m: "n = Suc m" "indexOf cs needle = int m"
      by (cases n) auto
    show ?thesis
    proof (cases i)
      case 0
      with False show ?thesis by simp
    next
      case (Suc j)
      with Cons.prems(2) m(1) have "j < m" by simp
      with Cons.IH [OF m(2)] Suc show ?thesis by simp
    qed
  qed
qed

lemma substring_take:
  "0 \<le> k \<Longrightarrow> k \<le> int (length s) \<Longrightarrow> substring s 0 k = take (nat k) s"
  by (simp add: substring_def Let_def min_def max_def)

text \<open>
  Claim C7 as stated fails. In the text below both markers occur and "General Info:"
  comes first, at position 10, before "Documents & Links:" at position 35; the text up
  to the first marker is "Nice home", and \<open>extractDescription\<close> returns the text up to
  "Documents & Links:".
\<close>

theorem extractDescription_not_first_marker:
  "str_includes ''Nice home General Info: built 1990 Documents & Links: none'' ''Documents & Links:'' \<and>
   str_includes ''Nice home General Info: built 1990 Documents & Links: none'' ''General Info:'' \<and>
   indexOf ''Nice home General Info: built 1990 Documents & Links: none'' ''General Info:'' = 10 \<and>
   indexOf ''Nice home General Info: built 1990 Documents & Links: none'' ''Documents & Links:'' = 35 \<and>
   extractDescription ''Nice home General Info: built 1990 Documents & Links: none''
     = ''Nice home General Info: built 1990'' \<and>
   trim (substring ''Nice home General Info: built 1990 Documents & Links: none'' 0 10)
     = ''Nice home'' \<and>
   extractDescription ''Nice home General Info: built 1990 Documents & Links: none''
     \<noteq> substring ''Nice home General Info: built 1990 Documents & Links: none'' 0 10"
  by code_simp

text \<open>
  Claim C7, amended. For every text that contains both markers and whose first
  "Documents & Links:" is not at the very start, \<open>extractDescription\<close> returns the
  trimmed text before that first "Documents & Links:", wherever "General Info:" occurs.
  Here \<open>pre\<close> is the text before the marker, and no occurrence of the marker starts inside
  \<open>pre\<close>.
\<close>

theorem extractDescription_ends_at_documents_marker:
  assumes "blob = pre @ ''Documents & Links:'' @ post"
    and "pre \<noteq> []"
    and "\<forall>i<length pre. \<not> prefix ''Documents & Links:'' (drop i blob)"
    and "str_includes blob ''General Info:''"
  shows "extractDescription blob = trim pre"
proof -
  have "indexOf blob ''Documents & Links:'' = int (length pre)"
    unfolding assms(1)
    by (rule indexOf_first) (use assms(1,3) in simp_all)
  moreover from assms(2) have "0 < int (length pre)" by simp
  moreover have "substring blob 0 (int (length pre)) = pre"
    by (simp add: substring_take assms(1))
  ultimately show ?thesis
    by (simp add: extractDescription_def Let_def)
qed

theorem extractDescription_ends_at_documents_marker_witness:
  "extractDescription ''Corner lot. General Info: RS-1 Documents & Links: Floor plan''
     = ''Corner lot. General Info: RS-1''"
proof -
  let ?text = "''Corner lot. General Info: RS-1 Documents & Links: Floor plan''"
  let ?pre = "''Corner lot. General Info: RS-1 ''"
  have "indexOf ?text ''Documents & Links:'' = int (length ?pre)"
    by code_simp
  then have first: "\<forall>i<length ?pre. \<not> prefix ''Documents & Links:'' (drop i ?text)"
    using indexOf_least by blast
  have parts: "?text = ?pre @ ''Documents & Links:'' @ '' Floor plan''" and "?pre \<noteq> []"
    by simp_all
  moreover have "str_includes ?text ''General Info:''"
    by code_simp
  moreover have "trim ?pre = ''Corner lot. General Info: RS-1''"
    by code_simp
  ultimately show ?thesis
    using extractDescription_ends_at_documents_marker [of ?text ?pre "'' Floor plan''"] first by simp
qed

section \<open>Properties of the SummaryExtractor\<close>

lemma parseFloat_example: "parseFloat (stripDollarComma ''$1,234,500'') = Finite 1234500"
  by (simp add: parseFloat_def stripDollarComma_def isWhiteSpace_def isDigit_def
      digitsValue_def scale10_def)

lemma parseFloat_empty: "parseFloat (stripDollarComma '''') = NaN"
  by (simp add: parseFloat_def stripDollarComma_def)

lemma price_bot:
  "price (extractListingInfo_bot f e) =
     \<lparr> amount = parseFloat (stripDollarComma (trim (price_text e))),
       formatted = trim (price_text e) \<rparr>"
  by (simp add: extractListingInfo_bot_def Let_def)

lemma price_parsers:
  "price (extractListingInfo_parsers f e) =
     \<lparr> amount = orZero (parseFloat (stripDollarComma (trim (price_text e)))),
       formatted = trim (price_text e) \<rparr>"
  by (simp add: extractListingInfo_parsers_def parsePrice_def Let_def)

text \<open>
  Claim C9 as stated fails for \<open>extractListingInfo\<close> of the parsers module: on an
  element with an empty price text, \<open>parsePrice\<close> turns the \<open>NaN\<close> of \<open>parseFloat\<close> into
  \<open>0\<close> with \<open>|| 0\<close>.
\<close>

theorem parsePrice_of_absent_price_is_zero:
  "trim (price_text (exampleElement ''a'' ''Active'' \<lparr> price_text := '''' \<rparr>)) = '''' \<and>
   amount (price (extractListingInfo_parsers (\<lambda>summary. ())
                    (exampleElement ''a'' ''Active'' \<lparr> price_text := '''' \<rparr>))) = Finite 0 \<and>
   amount (price (extractListingInfo_parsers (\<lambda>summary. ())
                    (exampleElement ''a'' ''Active'' \<lparr> price_text := '''' \<rparr>))) \<noteq> NaN \<and>
   parsePrice '''' = Finite 0"
  by (simp add: price_parsers parsePrice_def parseFloat_empty exampleElement_def trim_def)

text \<open>
  Claim C9, amended. Both versions of \<open>extractListingInfo\<close> keep the trimmed price text
  as \<open>formatted\<close> and strip \<open>$\<close> and \<open>,\<close> before \<open>parseFloat\<close>: \<open>"$1,234,500"\<close> gives the
  amount \<open>1234500\<close>. When the price text is empty, the amount is \<open>NaN\<close> in \<open>bot.js\<close> and
  \<open>0\<close> in the parsers module, whose amount is always the one of \<open>bot.js\<close> with \<open>NaN\<close>
  replaced by \<open>0\<close>; \<open>formatted\<close> is the empty text in both.
\<close>

theorem price_extraction:
  "(trim (price_text e) = ''$1,234,500'' \<longrightarrow>
      price (extractListingInfo_bot f e) = \<lparr> amount = Finite 1234500, formatted = ''$1,234,500'' \<rparr> \<and>
      price (extractListingInfo_parsers f e) = \<lparr> amount = Finite 1234500, formatted = ''$1,234,500'' \<rparr>) \<and>
   (trim (price_text e) = '''' \<longrightarrow>
      price (extractListingInfo_bot f e) = \<lparr> amount = NaN, formatted = '''' \<rparr> \<and>
      price (extractListingInfo_parsers f e) = \<lparr> amount = Finite 0, formatted = '''' \<rparr>) \<and>
   formatted (price (extractListingInfo_bot f e)) = trim (price_text e) \<and>
   formatted (price (extractListingInfo_parsers f e)) = trim (price_text e) \<and>
   amount (price (extractListingInfo_parsers f e)) = orZero (amount (price (extractListingInfo_bot f e)))"
  by (simp add: price_bot price_parsers parseFloat_example parseFloat_empty)

theorem price_extraction_witness:
  "price (extractListingInfo_bot (\<lambda>summary. ()) (exampleElement ''a'' ''Active''))
     = \<lparr> amount = Finite 1234500, formatted = ''$1,234,500'' \<rparr> \<and>
   price (extractListingInfo_parsers (\<lambda>summary. ()) (exampleElement ''a'' ''Active''))
     = \<lparr> amount = Finite 1234500, formatted = ''$1,234,500'' \<rparr> \<and>
   price (extractListingInfo_bot (\<lambda>summary. ()) (exampleElement ''a'' ''Active'' \<lparr> price_text := '''' \<rparr>))
     = \<lparr> amount = NaN, formatted = '''' \<rparr> \<and>
   price (extractListingInfo_parsers (\<lambda>summary. ()) (exampleElement ''a'' ''Active'' \<lparr> price_text := '''' \<rparr>))
     = \<lparr> amount = Finite 0, formatted = '''' \<rparr>"
  using price_extraction [of "exampleElement ''a'' ''Active''" "\<lambda>summary. ()"]
    price_extraction [of "exampleElement ''a'' ''Active'' \<lparr> price_text := '''' \<rparr>" "\<lambda>summary. ()"]
  by (simp add: exampleElement_def trim_def isWhiteSpace_def)

end
